theory Spec2Isabelle
  imports Complex_Main "HOL-Library.AList" "HOL-Library.Multiset"
begin

section \<open>The expression substrate\<close>

text \<open>
  The passes of \<^verbatim>\<open>gem/optimise.py\<close> and \<^verbatim>\<open>gem/refactorise.py\<close> work on the node
  classes of \<^verbatim>\<open>gem.gem\<close>. That module is not among the sources, so the node kinds are
  modelled from the specification's node taxonomy: terminals, index-carrying leaves and
  operators, compared structurally. An index is a Python \<^verbatim>\<open>int\<close> (fixed), an \<^verbatim>\<open>Index\<close>
  object (free, identified by a number, with an extent that may still be unset), or a
  \<^verbatim>\<open>VariableIndex\<close> carrying an expression. A \<^verbatim>\<open>FlexiblyIndexed\<close> node can only be built
  around a named variable, which is what the constructor below stores.
\<close>

datatype index = Fixed int | Free nat "nat option" | VarIdx expr
and expr =
    Literal "nat list" "real list"
  | Zero "nat list"
  | Identity nat
  | Failure "nat list" string
  | Variable string "nat list"
  | Sum expr expr
  | Product expr expr
  | Division expr expr
  | Power expr expr
  | MathFunction string "expr list"
  | Comparison string expr expr
  | LogicalNot expr
  | LogicalAnd expr expr
  | LogicalOr expr expr
  | Conditional expr expr expr
  | Indexed expr "index list"
  | FlexiblyIndexed string "nat list" "(int \<times> (index \<times> int) list) list"
  | IndexSum expr "index list"
  | ComponentTensor expr "index list"
  | ListTensor "nat list" "expr list"
  | Delta index index

text \<open>\<^verbatim>\<open>one = Literal(1)\<close>: the scalar literal 1.\<close>

definition one :: expr where
  "one = Literal [] [1]"

text \<open>\<^verbatim>\<open>isinstance(i, Index)\<close> and \<^verbatim>\<open>i.extent\<close>.\<close>

fun is_Index :: "index \<Rightarrow> bool" where
  "is_Index (Free _ _) = True"
| "is_Index _ = False"

fun extent :: "index \<Rightarrow> nat option" where
  "extent (Free _ e) = e"
| "extent _ = None"

fun children :: "expr \<Rightarrow> expr list" where
  "children (Sum a b) = [a, b]"
| "children (Product a b) = [a, b]"
| "children (Division a b) = [a, b]"
| "children (Power a b) = [a, b]"
| "children (MathFunction _ as) = as"
| "children (Comparison _ a b) = [a, b]"
| "children (LogicalNot a) = [a]"
| "children (LogicalAnd a b) = [a, b]"
| "children (LogicalOr a b) = [a, b]"
| "children (Conditional c a b) = [c, a, b]"
| "children (Indexed a _) = [a]"
| "children (FlexiblyIndexed v sh _) = [Variable v sh]"
| "children (IndexSum a _) = [a]"
| "children (ComponentTensor a _) = [a]"
| "children (ListTensor _ as) = as"
| "children _ = []"

text \<open>
  Modelled from the spec: \<^verbatim>\<open>node.free_indices\<close> is computed by the constructors of
  \<^verbatim>\<open>gem.gem\<close>, which are not among the sources. It holds the \<^verbatim>\<open>Index\<close> objects of a
  node that are not bound by an enclosing contraction or component tensor, without
  repetitions and in one canonical order, so that two such tuples are equal exactly when
  they hold the same indices. The model keeps a list without repetitions; wherever the
  code compares two tuples or uses one as a dictionary key, the model compares the sets.
\<close>

fun free_indices :: "expr \<Rightarrow> index list" where
  "free_indices (Indexed a mi) = remdups (free_indices a @ filter is_Index mi)"
| "free_indices (FlexiblyIndexed v sh d) =
     remdups (filter is_Index (concat (map (\<lambda>(off, idxs). map fst idxs) d)))"
| "free_indices (IndexSum a mi) = filter (\<lambda>i. i \<notin> set mi) (free_indices a)"
| "free_indices (ComponentTensor a mi) = filter (\<lambda>i. i \<notin> set mi) (free_indices a)"
| "free_indices (Delta i j) = remdups (filter is_Index [i, j])"
| "free_indices (Sum a b) = remdups (free_indices a @ free_indices b)"
| "free_indices (Product a b) = remdups (free_indices a @ free_indices b)"
| "free_indices (Division a b) = remdups (free_indices a @ free_indices b)"
| "free_indices (Power a b) = remdups (free_indices a @ free_indices b)"
| "free_indices (MathFunction _ as) = remdups (concat (map free_indices as))"
| "free_indices (Comparison _ a b) = remdups (free_indices a @ free_indices b)"
| "free_indices (LogicalNot a) = free_indices a"
| "free_indices (LogicalAnd a b) = remdups (free_indices a @ free_indices b)"
| "free_indices (LogicalOr a b) = remdups (free_indices a @ free_indices b)"
| "free_indices (Conditional c a b) =
     remdups (free_indices c @ free_indices a @ free_indices b)"
| "free_indices (ListTensor _ as) = remdups (concat (map free_indices as))"
| "free_indices _ = []"

section \<open>Errors\<close>

text \<open>Every exception the modelled code can raise, with the message where the source
  gives one.\<close>

datatype error =
    NotImplementedError string
  | AssertionError string
  | ValueError string
  | TypeError string
  | AttributeError string
  | FactorisationError expr
  | UnboundLocalError string
  | KeyError string
  | RecursionError string

definition bindE :: "error + 'a \<Rightarrow> ('a \<Rightarrow> error + 'b) \<Rightarrow> error + 'b" where
  "bindE m f = (case m of Inl e \<Rightarrow> Inl e | Inr x \<Rightarrow> f x)"

fun mapE :: "('a \<Rightarrow> error + 'b) \<Rightarrow> 'a list \<Rightarrow> error + 'b list" where
  "mapE f [] = Inr []"
| "mapE f (x # xs) =
     (case f x of Inl e \<Rightarrow> Inl e
      | Inr y \<Rightarrow> (case mapE f xs of Inl e \<Rightarrow> Inl e | Inr ys \<Rightarrow> Inr (y # ys)))"

section \<open>The associativity optimiser\<close>

text \<open>
  \<^verbatim>\<open>numpy.prod(extents, dtype=int)\<close>: the product of the extents as a 64-bit signed
  integer (it wraps around), and a \<^verbatim>\<open>TypeError\<close> when an extent is still \<^verbatim>\<open>None\<close>.
\<close>

definition int64 :: "int \<Rightarrow> int" where
  "int64 x = signed_take_bit 63 x"

fun extent_product :: "index list \<Rightarrow> error + int" where
  "extent_product [] = Inr 1"
| "extent_product (i # is) =
     (case extent i of
        None \<Rightarrow> Inl (TypeError ''int() argument must be a number, not NoneType'')
      | Some n \<Rightarrow> (case extent_product is of Inl e \<Rightarrow> Inl e
                  | Inr p \<Rightarrow> Inr (int64 (int n * p))))"

text \<open>The local function \<^verbatim>\<open>count\<close> of both \<^verbatim>\<open>associate_product\<close> and
  \<^verbatim>\<open>associate_sum\<close>.\<close>

definition count :: "expr \<times> expr \<Rightarrow> error + int" where
  "count pair = (case pair of (a, b) \<Rightarrow>
     extent_product (remdups (free_indices a @ free_indices b)))"

text \<open>\<^verbatim>\<open>itertools.combinations(xs, 2)\<close>.\<close>

fun combinations2 :: "'a list \<Rightarrow> ('a \<times> 'a) list" where
  "combinations2 [] = []"
| "combinations2 (x # xs) = map (Pair x) xs @ combinations2 xs"

text \<open>\<^verbatim>\<open>min(pairs, key=...)\<close> on the keys already computed: the first pair whose key is
  least; \<^verbatim>\<open>min\<close> of an empty sequence is a \<^verbatim>\<open>ValueError\<close>.\<close>

fun first_min :: "('a \<times> int) \<Rightarrow> ('a \<times> int) list \<Rightarrow> 'a \<times> int" where
  "first_min best [] = best"
| "first_min best (x # xs) = first_min (if snd x < snd best then x else best) xs"

definition min_pair :: "expr list \<Rightarrow> error + ((expr \<times> expr) \<times> int)" where
  "min_pair factors =
     (case mapE (\<lambda>p. case count p of Inl e \<Rightarrow> Inl e | Inr c \<Rightarrow> Inr (p, c))
             (combinations2 factors) of
        Inl e \<Rightarrow> Inl e
      | Inr [] \<Rightarrow> Inl (ValueError ''min() arg is an empty sequence'')
      | Inr (k # ks) \<Rightarrow> Inr (first_min k ks))"

text \<open>\<^verbatim>\<open>xs.remove(x)\<close>: drops the first element equal to \<^verbatim>\<open>x\<close>, a \<^verbatim>\<open>ValueError\<close> when
  there is none.\<close>

definition list_remove :: "'a \<Rightarrow> 'a list \<Rightarrow> error + 'a list" where
  "list_remove x xs =
     (if x \<in> set xs then Inr (remove1 x xs)
      else Inl (ValueError ''list.remove(x): x not in list''))"

text \<open>
  The greedy \<^verbatim>\<open>while len(factors) > 1\<close> loop. \<^verbatim>\<open>associate_product\<close> and
  \<^verbatim>\<open>associate_sum\<close> hold the same loop, one building \<^verbatim>\<open>Product(a, b)\<close> and the other
  \<^verbatim>\<open>Sum(a, b)\<close>; the node constructor is the parameter \<open>mk\<close>.
\<close>

function greedy_merge ::
  "(expr \<Rightarrow> expr \<Rightarrow> expr) \<Rightarrow> expr list \<Rightarrow> int \<Rightarrow> error + (expr list \<times> int)" where
  "greedy_merge mk factors flops =
     (if length factors > 1 then
        (case min_pair factors of
           Inl e \<Rightarrow> Inl e
         | Inr ((a, b), c) \<Rightarrow>
             (case list_remove a factors of
                Inl e \<Rightarrow> Inl e
              | Inr f1 \<Rightarrow>
                  (case list_remove b f1 of
                     Inl e \<Rightarrow> Inl e
                   | Inr f2 \<Rightarrow> greedy_merge mk (f2 @ [mk a b]) (int64 (flops + c)))))
      else Inr (factors, flops))"
  by pat_completeness auto
termination
proof (relation "measure (\<lambda>(mk, factors, flops). length factors)")
  show "wf (measure (\<lambda>(mk, factors, flops). length factors))" by simp
next
  fix mk :: "expr \<Rightarrow> expr \<Rightarrow> expr" and factors :: "expr list" and flops :: int
    and x2 :: "(expr \<times> expr) \<times> int" and x1 :: "expr \<times> expr" and c :: int
    and a b :: expr and f1 f2 :: "expr list"
  assume len: "1 < length factors"
    and r1: "list_remove a factors = Inr f1"
    and r2: "list_remove b f1 = Inr f2"
  from r1 have a: "a \<in> set factors" and f1: "f1 = remove1 a factors"
    by (auto simp: list_remove_def split: if_splits)
  from r2 have b: "b \<in> set f1" and f2: "f2 = remove1 b f1"
    by (auto simp: list_remove_def split: if_splits)
  have l1: "length f1 = length factors - 1"
    using a f1 by (simp add: length_remove1)
  have l2: "length f2 = length f1 - 1"
    using b f2 by (simp add: length_remove1)
  have "length f1 > 0" using b by (cases f1) auto
  then show "((mk, f2 @ [mk a b], int64 (flops + c)), (mk, factors, flops))
      \<in> measure (\<lambda>(mk, factors, flops). length factors)"
    using l1 l2 len by simp
qed

declare greedy_merge.simps [simp del]

text \<open>\<^verbatim>\<open>x, = xs\<close>: unpacking a list that must hold exactly one element.\<close>

fun unpack1 :: "'a list \<Rightarrow> error + 'a" where
  "unpack1 [x] = Inr x"
| "unpack1 [] = Inl (ValueError ''need more than 0 values to unpack'')"
| "unpack1 _ = Inl (ValueError ''too many values to unpack'')"

definition too_complicated :: error where
  "too_complicated = NotImplementedError ''Not expected such a complicated expression!''"

definition associate_product :: "expr list \<Rightarrow> error + (expr \<times> int)" where
  "associate_product factors =
     (if length factors > 32 then Inl too_complicated
      else
        (case greedy_merge Product factors 0 of
           Inl e \<Rightarrow> Inl e
         | Inr (fs, flops) \<Rightarrow>
             (case unpack1 fs of Inl e \<Rightarrow> Inl e | Inr product \<Rightarrow> Inr (product, flops))))"

text \<open>
  \<^verbatim>\<open>groups.setdefault(key, []).append(x)\<close> on an \<^verbatim>\<open>OrderedDict\<close> whose keys are
  free-index collections: the dictionary is an association list in insertion order, the
  key of a group is kept as a list and compared as a set.
\<close>

fun group_append :: "index list \<Rightarrow> expr \<Rightarrow> (index list \<times> expr list) list
    \<Rightarrow> (index list \<times> expr list) list" where
  "group_append k x [] = [(k, [x])]"
| "group_append k x ((k', xs) # g) =
     (if set k' = set k then (k', xs @ [x]) # g else (k', xs) # group_append k x g)"

definition group_by_free_indices :: "expr list \<Rightarrow> (index list \<times> expr list) list" where
  "group_by_free_indices es = foldl (\<lambda>g e. group_append (free_indices e) e g) [] es"


subsection \<open>Operand trees\<close>













lemma mapE_Inl:
  "mapE f xs = Inl e \<Longrightarrow> \<exists>x \<in> set xs. f x = Inl e"
  by (induction xs) (auto split: sum.splits)




lemma extent_product_error:
  "extent_product is = Inl e \<Longrightarrow> e = TypeError ''int() argument must be a number, not NoneType''"
  by (induction "is") (auto split: option.splits sum.splits)


lemma min_pair_error:
  assumes "min_pair fs = Inl e"
  shows "e = TypeError ''int() argument must be a number, not NoneType''
       \<or> e = ValueError ''min() arg is an empty sequence''"
proof -
  let ?f = "\<lambda>p. case count p of Inl e \<Rightarrow> Inl e | Inr c \<Rightarrow> Inr (p, c)"
  show ?thesis
  proof (cases "mapE ?f (combinations2 fs)")
    case (Inl e')
    with assms have "e' = e" by (simp add: min_pair_def)
    with mapE_Inl[OF Inl] obtain p where
      "(case count p of Inl e \<Rightarrow> Inl e | Inr c \<Rightarrow> Inr (p, c)) = Inl e"
      by blast
    then have "count p = Inl e" by (cases "count p") auto
    then show ?thesis
      by (auto simp: count_def split: prod.splits dest: extent_product_error)
  next
    case (Inr ks)
    with assms show ?thesis by (auto simp: min_pair_def split: list.splits)
  qed
qed


lemma greedy_merge_error:
  "greedy_merge mk fs fl = Inl e \<Longrightarrow>
   e = TypeError ''int() argument must be a number, not NoneType''
   \<or> e = ValueError ''min() arg is an empty sequence''
   \<or> e = ValueError ''list.remove(x): x not in list''"
proof (induction mk fs fl rule: greedy_merge.induct)
  case (1 mk factors flops)
  show ?case
  proof (cases "1 < length factors")
    case False
    with "1.prems" show ?thesis by (simp add: greedy_merge.simps[of mk factors flops])
  next
    case True
    show ?thesis
    proof (cases "min_pair factors")
      case (Inl e')
      with True "1.prems" have "e' = e" by (simp add: greedy_merge.simps[of mk factors flops])
      with min_pair_error[OF Inl] show ?thesis by auto
    next
      case (Inr r)
      obtain a b c where r: "r = ((a, b), c)" by (metis prod.exhaust)
      show ?thesis
      proof (cases "list_remove a factors")
        case (Inl e')
        with True Inr r "1.prems" have "e' = e"
          by (simp add: greedy_merge.simps[of mk factors flops])
        with Inl show ?thesis by (auto simp: list_remove_def split: if_splits)
      next
        case f1: (Inr f1)
        show ?thesis
        proof (cases "list_remove b f1")
          case (Inl e')
          with True Inr r f1 "1.prems" have "e' = e"
            by (simp add: greedy_merge.simps[of mk factors flops])
          with Inl show ?thesis by (auto simp: list_remove_def split: if_splits)
        next
          case f2: (Inr f2)
          with True Inr r f1 "1.prems"
          have "greedy_merge mk (f2 @ [mk a b]) (int64 (flops + c)) = Inl e"
            by (simp add: greedy_merge.simps[of mk factors flops])
          from "1.IH"[OF True Inr[unfolded r] refl refl f1 f2 this] show ?thesis .
        qed
      qed
    qed
  qed
qed





























subsection \<open>Operands and capacity of the associativity optimiser\<close>






section \<open>Sum factorisation\<close>

text \<open>\<^verbatim>\<open>reduce(f, xs)\<close> without a start value: a \<^verbatim>\<open>TypeError\<close> on an empty list.\<close>

fun reduce1 :: "('a \<Rightarrow> 'a \<Rightarrow> 'a) \<Rightarrow> 'a list \<Rightarrow> error + 'a" where
  "reduce1 f [] = Inl (TypeError ''reduce() of empty sequence with no initial value'')"
| "reduce1 f (x # xs) = Inr (foldl f x xs)"

text \<open>
  \<^verbatim>\<open>itertools.permutations(xs)\<close>: all other_orderings of the positions of \<^verbatim>\<open>xs\<close>, in
  lexicographic order of the positions. \<open>picks\<close> lists every element with the remaining
  ones, in order of position.
\<close>

fun picks :: "'a list \<Rightarrow> ('a \<times> 'a list) list" where
  "picks [] = []"
| "picks (x # xs) = (x, xs) # map (\<lambda>(y, ys). (y, x # ys)) (picks xs)"

lemma picks_length: "(y, ys) \<in> set (picks xs) \<Longrightarrow> length ys < length xs"
  by (induction xs arbitrary: y ys) auto

fun permutations_of_length :: "nat \<Rightarrow> 'a list \<Rightarrow> 'a list list" where
  "permutations_of_length 0 xs = [[]]"
| "permutations_of_length (Suc n) xs =
     concat (map (\<lambda>(y, ys). map ((#) y) (permutations_of_length n ys)) (picks xs))"

definition permutations :: "'a list \<Rightarrow> 'a list list" where
  "permutations xs = permutations_of_length (length xs) xs"

definition too_many_indices :: error where
  "too_many_indices = NotImplementedError ''Too many indices for sum factorisation!''"

text \<open>The inner loop \<^verbatim>\<open>for sum_index in ordering\<close> of \<^verbatim>\<open>sum_factorise\<close>, on the
  state \<^verbatim>\<open>(terms, flops)\<close>.\<close>

fun contract_indices :: "index list \<Rightarrow> expr list \<Rightarrow> int \<Rightarrow> error + (expr list \<times> int)" where
  "contract_indices [] terms flops = Inr (terms, flops)"
| "contract_indices (sum_index # an_ordering) terms flops =
     (let contract = filter (\<lambda>t. sum_index \<in> set (free_indices t)) terms;
          deferred = filter (\<lambda>t. sum_index \<notin> set (free_indices t)) terms
      in case associate_product contract of
           Inl e \<Rightarrow> Inl e
         | Inr (product, flops') \<Rightarrow>
             (let term = IndexSum product [sum_index]
              in case extent_product (free_indices product) of
                   Inl e \<Rightarrow> Inl e
                 | Inr c \<Rightarrow>
                     contract_indices an_ordering (deferred @ [term])
                       (int64 (flops + int64 (flops' + c)))))"

text \<open>The outer loop \<^verbatim>\<open>for ordering in permutations(sum_indices)\<close>, on the state
  \<^verbatim>\<open>(expression, best_flops)\<close>; \<open>None\<close> stands for Python's \<^verbatim>\<open>None\<close> and for
  \<^verbatim>\<open>numpy.inf\<close>.\<close>

fun try_orderings ::
  "index list list \<Rightarrow> expr list \<Rightarrow> expr option \<Rightarrow> int option \<Rightarrow> error + expr option" where
  "try_orderings [] groups expression best_flops = Inr expression"
| "try_orderings (an_ordering # other_orderings) groups expression best_flops =
     (case contract_indices an_ordering groups 0 of
        Inl e \<Rightarrow> Inl e
      | Inr (terms, flops) \<Rightarrow>
          (case associate_product terms of
             Inl e \<Rightarrow> Inl e
           | Inr (expr, flops') \<Rightarrow>
               (let flops = int64 (flops + flops')
                in if (case best_flops of None \<Rightarrow> True | Some b \<Rightarrow> flops < b)
                   then try_orderings other_orderings groups (Some expr) (Some flops)
                   else try_orderings other_orderings groups expression best_flops)))"

text \<open>\<^verbatim>\<open>sum_factorise\<close>; the result \<open>Inr None\<close> is a returned \<^verbatim>\<open>None\<close>.\<close>

definition sum_factorise :: "index list \<Rightarrow> expr list \<Rightarrow> error + expr option" where
  "sum_factorise sum_indices factors =
     (if length factors = 0 \<and> length sum_indices = 0 then Inr (Some one)
      else if length sum_indices > 5 then Inl too_many_indices
      else
        (case mapE (\<lambda>(k, terms). reduce1 Product terms) (group_by_free_indices factors) of
           Inl e \<Rightarrow> Inl e
         | Inr groups \<Rightarrow> try_orderings (permutations sum_indices) groups None None))"

lemma associate_product_error:
  "associate_product fs = Inl e \<Longrightarrow>
     e = too_complicated
   \<or> e = TypeError ''int() argument must be a number, not NoneType''
   \<or> (\<exists>m. e = ValueError m)"
proof (cases "length fs > 32")
  case True
  assume "associate_product fs = Inl e"
  with True show ?thesis by (simp add: associate_product_def)
next
  case False
  assume a: "associate_product fs = Inl e"
  show ?thesis
  proof (cases "greedy_merge Product fs 0")
    case (Inl e')
    with a False have "e' = e" by (simp add: associate_product_def)
    with greedy_merge_error[OF Inl] show ?thesis by auto
  next
    case (Inr r)
    obtain fs' n where r: "r = (fs', n)" by (cases r)
    from a False Inr r have "unpack1 fs' = Inl e"
      by (simp add: associate_product_def split: sum.splits)
    then show ?thesis by (cases fs'; cases "tl fs'") auto
  qed
qed

lemma associate_product_not_too_many: "associate_product fs \<noteq> Inl too_many_indices"
  using associate_product_error[of fs too_many_indices]
  by (auto simp: too_many_indices_def too_complicated_def)

lemma extent_product_not_too_many: "extent_product is \<noteq> Inl too_many_indices"
  using extent_product_error[of "is" too_many_indices]
  by (auto simp: too_many_indices_def)

lemma contract_indices_not_too_many:
  "contract_indices an_ordering terms flops \<noteq> Inl too_many_indices"
proof (induction an_ordering arbitrary: terms flops)
  case Nil
  then show ?case by simp
next
  case (Cons i an_ordering)
  let ?c = "filter (\<lambda>t. i \<in> set (free_indices t)) terms"
  show ?case
  proof (cases "associate_product ?c")
    case (Inl e)
    with associate_product_not_too_many[of ?c] show ?thesis by auto
  next
    case (Inr r)
    obtain p n where r: "r = (p, n)" by (cases r)
    show ?thesis
    proof (cases "extent_product (free_indices p)")
      case (Inl e)
      with extent_product_not_too_many[of "free_indices p"] Inr r show ?thesis by auto
    next
      case c: (Inr c)
      with Inr r Cons.IH show ?thesis by (simp add: Let_def)
    qed
  qed
qed

lemma try_orderings_not_too_many:
  "try_orderings other_orderings groups expression best \<noteq> Inl too_many_indices"
proof (induction other_orderings arbitrary: expression best)
  case Nil
  then show ?case by simp
next
  case (Cons an_ordering other_orderings)
  show ?case
  proof (cases "contract_indices an_ordering groups 0")
    case (Inl e)
    with contract_indices_not_too_many[of an_ordering groups 0] show ?thesis by auto
  next
    case (Inr r)
    obtain terms flops where r: "r = (terms, flops)" by (cases r)
    show ?thesis
    proof (cases "associate_product terms")
      case (Inl e)
      with associate_product_not_too_many[of terms] Inr r show ?thesis by auto
    next
      case a: (Inr q)
      obtain ex fl where q: "q = (ex, fl)" by (cases q)
      from Inr r a q Cons.IH show ?thesis by (simp add: Let_def)
    qed
  qed
qed

lemma reduce1_groups_not_too_many:
  "mapE (\<lambda>(k, terms). reduce1 Product terms) g \<noteq> Inl too_many_indices"
proof
  assume "mapE (\<lambda>(k, terms). reduce1 Product terms) g = Inl too_many_indices"
  from mapE_Inl[OF this] obtain k terms where "reduce1 Product terms = Inl too_many_indices"
    by auto
  then show False by (cases terms) (auto simp: too_many_indices_def)
qed

text \<open>
  Claim C8. \<^verbatim>\<open>sum_factorise\<close> raises the capacity error
  \<^verbatim>\<open>NotImplementedError("Too many indices for sum factorisation!")\<close> for every call with
  more than 5 summation indices, whatever the factors, and never raises that error for 5
  or fewer.
\<close>

theorem sum_factorise_capacity:
  "(length sum_indices > 5 \<longrightarrow> sum_factorise sum_indices factors = Inl too_many_indices)
   \<and> (length sum_indices \<le> 5 \<longrightarrow> sum_factorise sum_indices factors \<noteq> Inl too_many_indices)"
proof (intro conjI impI)
  assume "5 < length sum_indices"
  then show "sum_factorise sum_indices factors = Inl too_many_indices"
    by (auto simp: sum_factorise_def)
next
  assume le: "length sum_indices \<le> 5"
  let ?m = "mapE (\<lambda>(k, terms). reduce1 Product terms) (group_by_free_indices factors)"
  show "sum_factorise sum_indices factors \<noteq> Inl too_many_indices"
  proof (cases ?m)
    case (Inl e)
    with reduce1_groups_not_too_many[of "group_by_free_indices factors"]
    have "e \<noteq> too_many_indices" by auto
    with Inl le show ?thesis by (simp add: sum_factorise_def)
  next
    case (Inr groups)
    with le try_orderings_not_too_many[of "permutations sum_indices" groups None None]
    show ?thesis by (simp add: sum_factorise_def)
  qed
qed

text \<open>Two index lists: two indices of extents 4 and 6, and six indices.\<close>

definition two_indices :: "index list" where
  "two_indices = [Free 0 (Some 4), Free 1 (Some 6)]"

definition six_indices :: "index list" where
  "six_indices = map (\<lambda>n. Free n (Some 2)) [0..<6]"

text \<open>The theorem at six indices, and at two indices of extents 4 and 6 with two
  independent factors, where the call returns the product of the two contractions.\<close>

theorem sum_factorise_capacity_witness:
  "length six_indices > 5
   \<and> sum_factorise six_indices [] = Inl too_many_indices
   \<and> length two_indices \<le> 5
   \<and> sum_factorise two_indices
        [Indexed (Variable ''A'' [4]) [Free 0 (Some 4)],
         Indexed (Variable ''B'' [6]) [Free 1 (Some 6)]]
       = Inr (Some (Product
           (IndexSum (Indexed (Variable ''A'' [4]) [Free 0 (Some 4)]) [Free 0 (Some 4)])
           (IndexSum (Indexed (Variable ''B'' [6]) [Free 1 (Some 6)]) [Free 1 (Some 6)])))
   \<and> sum_factorise two_indices
        [Indexed (Variable ''A'' [4]) [Free 0 (Some 4)],
         Indexed (Variable ''B'' [6]) [Free 1 (Some 6)]] \<noteq> Inl too_many_indices"
proof -
  have six: "length six_indices > 5" by (simp add: six_indices_def)
  have two: "length two_indices \<le> 5" by (simp add: two_indices_def)
  have v: "sum_factorise two_indices
        [Indexed (Variable ''A'' [4]) [Free 0 (Some 4)],
         Indexed (Variable ''B'' [6]) [Free 1 (Some 6)]]
       = Inr (Some (Product
           (IndexSum (Indexed (Variable ''A'' [4]) [Free 0 (Some 4)]) [Free 0 (Some 4)])
           (IndexSum (Indexed (Variable ''B'' [6]) [Free 1 (Some 6)]) [Free 1 (Some 6)])))"
    by code_simp
  from sum_factorise_capacity[of six_indices "[]"] six
  have a: "sum_factorise six_indices [] = Inl too_many_indices" by blast
  from sum_factorise_capacity[of two_indices
      "[Indexed (Variable ''A'' [4]) [Free 0 (Some 4)],
        Indexed (Variable ''B'' [6]) [Free 1 (Some 6)]]"] two
  have b: "sum_factorise two_indices
        [Indexed (Variable ''A'' [4]) [Free 0 (Some 4)],
         Indexed (Variable ''B'' [6]) [Free 1 (Some 6)]] \<noteq> Inl too_many_indices" by blast
  from six a two v b show ?thesis by blast
qed

section \<open>Lowering of Kronecker deltas\<close>

text \<open>The local function \<^verbatim>\<open>expression\<close> of \<^verbatim>\<open>_replace_delta_delta\<close>.\<close>

fun index_expression :: "index \<Rightarrow> error + expr" where
  "index_expression (Fixed n) = Inr (Literal [] [of_int n])"
| "index_expression (VarIdx e) = Inr e"
| "index_expression (Free _ _) =
     Inl (ValueError ''Cannot convert running index to expression.'')"

text \<open>
  \<^verbatim>\<open>_replace_delta_delta\<close> on a node \<^verbatim>\<open>Delta(i, j)\<close>. The local variable \<^verbatim>\<open>size\<close> is
  \<open>None\<close> while it is unbound.
\<close>

definition replace_delta_delta :: "index \<Rightarrow> index \<Rightarrow> error + expr" where
  "replace_delta_delta i j =
     (if is_Index i \<or> is_Index j then
        (if is_Index i \<and> is_Index j \<and> extent i \<noteq> extent j
         then Inl (AssertionError [])
         else
           (case (if is_Index i
                  then (case extent i of None \<Rightarrow> Inl (AssertionError [])
                        | Some n \<Rightarrow> Inr (Some n))
                  else Inr None) of
              Inl e \<Rightarrow> Inl e
            | Inr size1 \<Rightarrow>
                (case (if is_Index j
                       then (case extent j of None \<Rightarrow> Inl (AssertionError [])
                             | Some n \<Rightarrow> Inr (Some n))
                       else Inr size1) of
                   Inl e \<Rightarrow> Inl e
                 | Inr None \<Rightarrow> Inl (UnboundLocalError ''size'')
                 | Inr (Some n) \<Rightarrow> Inr (Indexed (Identity n) [i, j]))))
      else
        (case index_expression i of
           Inl e \<Rightarrow> Inl e
         | Inr e_i \<Rightarrow>
             (case index_expression j of
                Inl e \<Rightarrow> Inl e
              | Inr e_j \<Rightarrow> Inr (Conditional (Comparison ''=='' e_i e_j) one (Zero [])))))"

text \<open>
  Claim C3, as the code has it. A delta with at least one \<^verbatim>\<open>Index\<close> among its two
  indices is lowered to an access into the identity matrix of that index's extent, also
  when the other index is an integer or a \<^verbatim>\<open>VariableIndex\<close>; a delta over two indices
  that are integers or \<^verbatim>\<open>VariableIndex\<close> objects is lowered to the conditional
  \<^verbatim>\<open>(i == j) ? 1 : 0\<close>. An assertion fails exactly when two \<^verbatim>\<open>Index\<close> objects have
  different extents or an \<^verbatim>\<open>Index\<close> has no extent, and the handler raises nothing else.
\<close>

theorem replace_delta_delta_cases:
  "(is_Index i \<and> is_Index j \<and> extent i = Some n \<and> extent j = Some n \<longrightarrow>
      replace_delta_delta i j = Inr (Indexed (Identity n) [i, j]))
   \<and> (is_Index i \<and> \<not> is_Index j \<and> extent i = Some n \<longrightarrow>
      replace_delta_delta i j = Inr (Indexed (Identity n) [i, j]))
   \<and> (\<not> is_Index i \<and> is_Index j \<and> extent j = Some n \<longrightarrow>
      replace_delta_delta i j = Inr (Indexed (Identity n) [i, j]))
   \<and> (\<not> is_Index i \<and> \<not> is_Index j \<longrightarrow>
      (\<exists>e_i e_j. index_expression i = Inr e_i \<and> index_expression j = Inr e_j
         \<and> replace_delta_delta i j
             = Inr (Conditional (Comparison ''=='' e_i e_j) one (Zero []))))
   \<and> (replace_delta_delta i j = Inl (AssertionError []) \<longleftrightarrow>
        (is_Index i \<and> is_Index j \<and> extent i \<noteq> extent j)
        \<or> (is_Index i \<and> extent i = None) \<or> (is_Index j \<and> extent j = None))
   \<and> (\<forall>e. replace_delta_delta i j = Inl e \<longrightarrow> e = AssertionError [])"
proof -
  have ni: "\<not> is_Index i \<Longrightarrow> \<exists>r. index_expression i = Inr r" for i by (cases i) auto
  show ?thesis
  proof (intro conjI impI allI)
    assume "is_Index i \<and> is_Index j \<and> extent i = Some n \<and> extent j = Some n"
    then show "replace_delta_delta i j = Inr (Indexed (Identity n) [i, j])"
      by (simp add: replace_delta_delta_def)
  next
    assume "is_Index i \<and> \<not> is_Index j \<and> extent i = Some n"
    then show "replace_delta_delta i j = Inr (Indexed (Identity n) [i, j])"
      by (simp add: replace_delta_delta_def)
  next
    assume "\<not> is_Index i \<and> is_Index j \<and> extent j = Some n"
    then show "replace_delta_delta i j = Inr (Indexed (Identity n) [i, j])"
      by (simp add: replace_delta_delta_def)
  next
    assume a: "\<not> is_Index i \<and> \<not> is_Index j"
    with ni[of i] ni[of j] obtain e_i e_j where
      "index_expression i = Inr e_i" "index_expression j = Inr e_j" by blast
    with a show "\<exists>e_i e_j. index_expression i = Inr e_i \<and> index_expression j = Inr e_j
         \<and> replace_delta_delta i j
             = Inr (Conditional (Comparison ''=='' e_i e_j) one (Zero []))"
      by (simp add: replace_delta_delta_def)
  next
    show "(replace_delta_delta i j = Inl (AssertionError [])) =
        (is_Index i \<and> is_Index j \<and> extent i \<noteq> extent j
        \<or> is_Index i \<and> extent i = None \<or> is_Index j \<and> extent j = None)"
      by (cases i; cases j) (auto simp: replace_delta_delta_def split: option.splits)
  next
    fix e assume "replace_delta_delta i j = Inl e"
    then show "e = AssertionError []"
      by (cases i; cases j)
         (auto simp: replace_delta_delta_def split: option.splits if_splits)
  qed
qed

text \<open>The theorem at one pair of each kind.\<close>

theorem replace_delta_delta_cases_witness:
  "replace_delta_delta (Free 0 (Some 3)) (Free 1 (Some 3))
     = Inr (Indexed (Identity 3) [Free 0 (Some 3), Free 1 (Some 3)])
   \<and> replace_delta_delta (Free 0 (Some 3)) (Fixed 2)
     = Inr (Indexed (Identity 3) [Free 0 (Some 3), Fixed 2])
   \<and> replace_delta_delta (VarIdx (Variable ''p'' [])) (Free 1 (Some 3))
     = Inr (Indexed (Identity 3) [VarIdx (Variable ''p'' []), Free 1 (Some 3)])
   \<and> replace_delta_delta (VarIdx (Variable ''p'' [])) (Fixed 2)
     = Inr (Conditional (Comparison ''=='' (Variable ''p'' []) (Literal [] [2])) one (Zero []))
   \<and> replace_delta_delta (Free 0 (Some 3)) (Free 1 (Some 4)) = Inl (AssertionError [])
   \<and> replace_delta_delta (Free 0 None) (Fixed 2) = Inl (AssertionError [])"
proof -
  note a = replace_delta_delta_cases[of "Free 0 (Some 3)" "Free 1 (Some 3)" 3]
  note b = replace_delta_delta_cases[of "Free 0 (Some 3)" "Fixed 2" 3]
  note c = replace_delta_delta_cases[of "VarIdx (Variable ''p'' [])" "Free 1 (Some 3)" 3]
  note d = replace_delta_delta_cases[of "VarIdx (Variable ''p'' [])" "Fixed 2" 0]
  note e = replace_delta_delta_cases[of "Free 0 (Some 3)" "Free 1 (Some 4)" 0]
  note f = replace_delta_delta_cases[of "Free 0 None" "Fixed 2" 0]
  from a[THEN conjunct1] have 1: "replace_delta_delta (Free 0 (Some 3)) (Free 1 (Some 3))
     = Inr (Indexed (Identity 3) [Free 0 (Some 3), Free 1 (Some 3)])" by simp
  from b[THEN conjunct2, THEN conjunct1] have 2: "replace_delta_delta (Free 0 (Some 3)) (Fixed 2)
     = Inr (Indexed (Identity 3) [Free 0 (Some 3), Fixed 2])" by simp
  from c[THEN conjunct2, THEN conjunct2, THEN conjunct1] have 3: "replace_delta_delta (VarIdx (Variable ''p'' [])) (Free 1 (Some 3))
     = Inr (Indexed (Identity 3) [VarIdx (Variable ''p'' []), Free 1 (Some 3)])" by simp
  from d[THEN conjunct2, THEN conjunct2, THEN conjunct2, THEN conjunct1] have 4: "replace_delta_delta (VarIdx (Variable ''p'' [])) (Fixed 2)
     = Inr (Conditional (Comparison ''=='' (Variable ''p'' []) (Literal [] [2])) one (Zero []))"
    by simp
  from e[THEN conjunct2, THEN conjunct2, THEN conjunct2, THEN conjunct2, THEN conjunct1] have 5: "replace_delta_delta (Free 0 (Some 3)) (Free 1 (Some 4)) = Inl (AssertionError [])"
    by simp
  from f[THEN conjunct2, THEN conjunct2, THEN conjunct2, THEN conjunct2, THEN conjunct1] have 6: "replace_delta_delta (Free 0 None) (Fixed 2) = Inl (AssertionError [])"
    by simp
  from 1 2 3 4 5 6 show ?thesis by blast
qed

text \<open>
  Claim C3 as stated fails on a mixed pair: for a free index of extent 3 and a
  \<^verbatim>\<open>VariableIndex\<close> the handler returns the identity-matrix access, no assertion fails.
\<close>

theorem replace_delta_mixed_pair_counterexample:
  "replace_delta_delta (Free 0 (Some 3)) (VarIdx (Variable ''p'' []))
     = Inr (Indexed (Identity 3) [Free 0 (Some 3), VarIdx (Variable ''p'' [])])"
  by (simp add: replace_delta_delta_def)

section \<open>The rewrite framework\<close>

text \<open>
  Modelled from the spec: \<^verbatim>\<open>gem.node\<close> (\<^verbatim>\<open>Memoizer\<close>, \<^verbatim>\<open>MemoizerArg\<close>,
  \<^verbatim>\<open>reuse_if_untouched\<close>, \<^verbatim>\<open>reuse_if_untouched_arg\<close>, \<^verbatim>\<open>traversal\<close>) is not among the
  sources. A memoizer applies its handler to a node and gives the handler itself for the
  recursive calls; the handlers are pure, so the cache is not modelled. The default
  handler rewrites the children and returns the node itself when none of them changed,
  and otherwise a node of the same kind around the new children.
\<close>

definition reconstruct :: "expr \<Rightarrow> expr list \<Rightarrow> expr" where
  "reconstruct node new_children =
     (case (node, new_children) of
        (Sum _ _, [a, b]) \<Rightarrow> Sum a b
      | (Product _ _, [a, b]) \<Rightarrow> Product a b
      | (Division _ _, [a, b]) \<Rightarrow> Division a b
      | (Power _ _, [a, b]) \<Rightarrow> Power a b
      | (MathFunction name _, as) \<Rightarrow> MathFunction name as
      | (Comparison op _ _, [a, b]) \<Rightarrow> Comparison op a b
      | (LogicalNot _, [a]) \<Rightarrow> LogicalNot a
      | (LogicalAnd _ _, [a, b]) \<Rightarrow> LogicalAnd a b
      | (LogicalOr _ _, [a, b]) \<Rightarrow> LogicalOr a b
      | (Conditional _ _ _, [c, a, b]) \<Rightarrow> Conditional c a b
      | (Indexed _ mi, [a]) \<Rightarrow> Indexed a mi
      | (FlexiblyIndexed _ _ d, [Variable v sh]) \<Rightarrow> FlexiblyIndexed v sh d
      | (IndexSum _ mi, [a]) \<Rightarrow> IndexSum a mi
      | (ComponentTensor _ mi, [a]) \<Rightarrow> ComponentTensor a mi
      | (ListTensor sh _, as) \<Rightarrow> ListTensor sh as
      | _ \<Rightarrow> node)"

definition reuse_if_untouched_arg :: "expr \<Rightarrow> (expr \<Rightarrow> 'a \<Rightarrow> expr) \<Rightarrow> 'a \<Rightarrow> expr" where
  "reuse_if_untouched_arg node self arg =
     (let new_children = map (\<lambda>child. self child arg) (children node)
      in if new_children = children node then node else reconstruct node new_children)"

section \<open>Index substitution\<close>

text \<open>
  A substitution is a tuple of pairs. \<^verbatim>\<open>dict(subst)\<close> is an association list with one
  entry per key, a later pair replacing an earlier one; \<^verbatim>\<open>substitute.get(i, i)\<close> and
  \<^verbatim>\<open>substitute.update(pairs)\<close> follow.
\<close>

type_synonym subst = "(index \<times> index) list"

definition dict :: "('k \<times> 'v) list \<Rightarrow> ('k \<times> 'v) list" where
  "dict pairs = foldl (\<lambda>d (k, v). AList.update k v d) [] pairs"

definition dict_get :: "('k \<times> 'k) list \<Rightarrow> 'k \<Rightarrow> 'k" where
  "dict_get d i = (case map_of d i of None \<Rightarrow> i | Some v \<Rightarrow> v)"

definition dict_update :: "('k \<times> 'v) list \<Rightarrow> ('k \<times> 'v) list \<Rightarrow> ('k \<times> 'v) list" where
  "dict_update d pairs = foldl (\<lambda>d (k, v). AList.update k v d) d pairs"

text \<open>
  Modelled from the spec: the constructor \<^verbatim>\<open>Delta(i, j)\<close> of \<^verbatim>\<open>gem.gem\<close> is not among
  the sources. A delta whose two indices are the same index is the unit factor \<^verbatim>\<open>one\<close>
  (the factor that delta elimination drops after it has substituted one index of a delta
  for the other); any other delta is the node itself.
\<close>

definition mk_Delta :: "index \<Rightarrow> index \<Rightarrow> expr" where
  "mk_Delta i j = (if i = j then one else Delta i j)"

definition replace_indices_delta :: "expr \<Rightarrow> index \<Rightarrow> index \<Rightarrow> subst \<Rightarrow> expr" where
  "replace_indices_delta node node_i node_j subst =
     (let substitute = dict subst;
          i = dict_get substitute node_i;
          j = dict_get substitute node_j
      in if i = node_i \<and> j = node_j then node else mk_Delta i j)"

text \<open>
  \<^verbatim>\<open>replace_indices_indexed\<close>. The code passes \<^verbatim>\<open>tuple(sorted(substitute.items()))\<close> on;
  the order of a substitution is never observed (every reader turns it into a dictionary
  again, and its keys are different), so the model passes the items on as they are.
\<close>

definition replace_indices_indexed ::
  "expr \<Rightarrow> expr \<Rightarrow> index list \<Rightarrow> (expr \<Rightarrow> subst \<Rightarrow> expr) \<Rightarrow> subst \<Rightarrow> expr" where
  "replace_indices_indexed node child node_multiindex self subst =
     (let substitute = dict subst;
          multiindex = map (dict_get substitute) node_multiindex
      in case child of
           ComponentTensor body child_multiindex \<Rightarrow>
             self body (dict_update substitute (zip child_multiindex multiindex))
         | _ \<Rightarrow>
             (let new_child = self child subst
              in if new_child = child \<and> multiindex = node_multiindex then node
                 else Indexed new_child multiindex))"

definition replace_indices_flexiblyindexed ::
  "expr \<Rightarrow> string \<Rightarrow> nat list \<Rightarrow> (int \<times> (index \<times> int) list) list \<Rightarrow> subst \<Rightarrow> expr" where
  "replace_indices_flexiblyindexed node v sh node_dim2idxs subst =
     (let substitute = dict subst;
          dim2idxs = map (\<lambda>(offset, idxs).
                        (offset, map (\<lambda>(i, s). (dict_get substitute i, s)) idxs))
                      node_dim2idxs
      in if dim2idxs = node_dim2idxs then node else FlexiblyIndexed v sh dim2idxs)"

text \<open>The single-dispatch function \<^verbatim>\<open>replace_indices\<close>.\<close>

definition replace_indices :: "expr \<Rightarrow> (expr \<Rightarrow> subst \<Rightarrow> expr) \<Rightarrow> subst \<Rightarrow> expr" where
  "replace_indices node self subst =
     (case node of
        Delta i j \<Rightarrow> replace_indices_delta node i j subst
      | Indexed child multiindex \<Rightarrow> replace_indices_indexed node child multiindex self subst
      | FlexiblyIndexed v sh d \<Rightarrow> replace_indices_flexiblyindexed node v sh d subst
      | _ \<Rightarrow> reuse_if_untouched_arg node self subst)"

definition filtered_replace_indices ::
  "expr \<Rightarrow> (expr \<Rightarrow> subst \<Rightarrow> expr) \<Rightarrow> subst \<Rightarrow> expr" where
  "filtered_replace_indices node self subst =
     (let filtered_subst = filter (\<lambda>(k, v). k \<in> set (free_indices node)) subst
      in replace_indices node self filtered_subst)"

lemma size_children: "c \<in> set (children e) \<Longrightarrow> size c < size e"
  by (cases e) (auto simp: less_Suc_eq_le size_list_estimation')

lemma reuse_if_untouched_arg_cong:
  "(\<And>c. c \<in> set (children node) \<Longrightarrow> f c arg = g c arg) \<Longrightarrow>
   reuse_if_untouched_arg node f arg = reuse_if_untouched_arg node g arg"
  by (simp add: reuse_if_untouched_arg_def cong: map_cong)

lemma replace_indices_cong:
  assumes "\<And>c s. size c < size node \<Longrightarrow> f c s = g c s"
  shows "replace_indices node f subst = replace_indices node g subst"
proof (cases node)
  case (Indexed child mi)
  show ?thesis
  proof (cases child)
    case (ComponentTensor body alpha)
    have "size body < size node" by (simp add: Indexed ComponentTensor)
    with assms show ?thesis
      by (simp add: replace_indices_def replace_indices_indexed_def Indexed ComponentTensor)
  qed (use assms Indexed in \<open>simp_all add: replace_indices_def replace_indices_indexed_def\<close>)
qed (use assms size_children[of _ node] in
      \<open>auto simp: replace_indices_def intro!: reuse_if_untouched_arg_cong\<close>)

lemma filtered_replace_indices_cong [fundef_cong]:
  assumes "node = node'" "subst = subst'"
    "\<And>c s. size c < size node' \<Longrightarrow> f c s = g c s"
  shows "filtered_replace_indices node f subst = filtered_replace_indices node' g subst'"
  using assms replace_indices_cong[of node' f g]
  by (simp add: filtered_replace_indices_def)





text \<open>All nodes of an expression, the root first.\<close>

function subterms :: "expr \<Rightarrow> expr list" where
  "subterms e = e # concat (map subterms (children e))"
  by pat_completeness auto
termination
  by (relation "measure size") (auto simp: size_children)

declare subterms.simps [simp del]





lemma subterms_self: "e \<in> set (subterms e)"
  by (subst subterms.simps) simp

lemma subterms_child: "c \<in> set (children e) \<Longrightarrow> set (subterms c) \<subseteq> set (subterms e)"
  by (subst (2) subterms.simps) auto
































section \<open>Delta elimination\<close>






















end
